theory Spec2Isabelle
  imports Main "HOL-Library.Word"
begin

unbundle bit_operations_syntax

section \<open>Data model\<close>

text \<open>
  The program is one Go file, \<^verbatim>\<open>main.go\<close>, of which the repository holds three
  revisions: the command-line only one, the one with the interactive session
  (\<^verbatim>\<open>src/main.go\<close>) and the one that adds label editing to the session. The
  bit counter and the two fetchers are the same text in all three.

  A Go \<^verbatim>\<open>byte\<close> is an 8-bit word. A Go \<^verbatim>\<open>int\<close> that counts bits is an
  \<^typ>\<open>int\<close>: a slice of more than \<open>2^60\<close> bytes cannot exist, so the 64-bit counters
  never wrap. A Go \<^verbatim>\<open>error\<close> is the text it prints, and \<^verbatim>\<open>nil\<close> is \<open>None\<close>.
\<close>

type_synonym byte = "8 word"

type_synonym error = string

definition bytesToFetch :: nat where
  "bytesToFetch = 1024"

subsection \<open>The bit counter\<close>

text \<open>
  The inner loop of \<^verbatim>\<open>countBits\<close>, \<^verbatim>\<open>for i := 0; i < 8; i++\<close>, entered at
  position \<open>i\<close> with the two counters. The untyped constant in \<^verbatim>\<open>b & (1 << i)\<close>
  takes the type of \<^verbatim>\<open>b\<close>, so the shift is a shift of bytes.
\<close>

function countBitsInner :: "byte \<Rightarrow> nat \<Rightarrow> int \<times> int \<Rightarrow> int \<times> int" where
  "countBitsInner b i (ones, zeros) =
     (if i < 8 then
        (if b AND (push_bit i 1) \<noteq> 0
         then countBitsInner b (i + 1) (ones + 1, zeros)
         else countBitsInner b (i + 1) (ones, zeros + 1))
      else (ones, zeros))"
  by pat_completeness auto
termination
  by (relation "measure (\<lambda>(b, i, c). 8 - i)") auto

declare countBitsInner.simps [simp del]

text \<open>The outer loop, \<^verbatim>\<open>for _, b := range bytes\<close>, with the two counters.\<close>

fun countBitsOuter :: "byte list \<Rightarrow> int \<times> int \<Rightarrow> int \<times> int" where
  "countBitsOuter [] c = c"
| "countBitsOuter (b # bytes) c = countBitsOuter bytes (countBitsInner b 0 c)"

definition countBits :: "byte list \<Rightarrow> int \<times> int" where
  "countBits bytes = countBitsOuter bytes (0, 0)"


subsection \<open>Printing numbers\<close>

text \<open>The verb \<^verbatim>\<open>%d\<close> of Go's \<^verbatim>\<open>fmt\<close>: a number in decimal.\<close>

definition digit :: "nat \<Rightarrow> char" where
  "digit d = ''0123456789'' ! d"

fun decimal :: "nat \<Rightarrow> string" where
  "decimal n = (if n < 10 then [digit n] else decimal (n div 10) @ [digit (n mod 10)])"

declare decimal.simps [simp del]

definition fmt_d :: "int \<Rightarrow> string" where
  "fmt_d n = (if n < 0 then CHR ''-'' # decimal (nat (- n)) else decimal (nat n))"

subsection \<open>The remote services\<close>

text \<open>
  The network is the program's environment. Of a response body the program sees only
  what the reader it applies returns (\<^verbatim>\<open>io.ReadAll\<close>, or the JSON decoder into
  one of the two response structs): the bytes or the document, or an error. Of
  \<^verbatim>\<open>client.Get\<close> it sees an error (a timeout after 30 seconds is one) or a
  response. A network gives the answer to the \<open>n\<close>-th GET of one fetch, by URL.
\<close>

record QRandomResponse =
  BinaryURL :: string

record AnuQrngResponse =
  Data :: "byte list"
  Success :: bool

record Body =
  ReadAll :: "error + byte list"
  DecodeQRandom :: "error + QRandomResponse"
  DecodeAnuQrng :: "error + AnuQrngResponse"

record Response =
  StatusCode :: int
  Body :: Body

type_synonym network = "nat \<Rightarrow> string \<Rightarrow> error + Response"

definition StatusOK :: int where
  "StatusOK = 200"

text \<open>The two addresses, each built by \<^verbatim>\<open>fmt.Sprintf\<close> from \<^verbatim>\<open>bytesToFetch\<close>.\<close>

definition qrandomURL :: string where
  "qrandomURL = ''https://qrandom.io/api/random/binary?bytes='' @ fmt_d (int bytesToFetch)"

definition anuURL :: string where
  "anuURL = ''https://qrng.anu.edu.au/API/jsonI.php?length='' @ fmt_d (int bytesToFetch)
            @ ''&type=uint8''"

definition fetchQRandomBytes :: "network \<Rightarrow> error + byte list" where
  "fetchQRandomBytes Get =
     (let url = qrandomURL in
      case Get 0 url of
        Inl err \<Rightarrow> Inl (''qrandom.io request failed: '' @ err)
      | Inr resp \<Rightarrow>
          if StatusCode resp \<noteq> StatusOK
          then Inl (''qrandom.io returned status '' @ fmt_d (StatusCode resp))
          else
            (case DecodeQRandom (Body resp) of
               Inl err \<Rightarrow> Inl (''failed to parse qrandom.io response: '' @ err)
             | Inr qrResp \<Rightarrow>
                 (case Get 1 (BinaryURL qrResp) of
                    Inl err \<Rightarrow> Inl (''failed to fetch binary data: '' @ err)
                  | Inr binaryResp \<Rightarrow>
                      if StatusCode binaryResp \<noteq> StatusOK
                      then Inl (''binary fetch returned status '' @ fmt_d (StatusCode binaryResp))
                      else
                        (case ReadAll (Body binaryResp) of
                           Inl err \<Rightarrow> Inl (''failed to read binary data: '' @ err)
                         | Inr bytes \<Rightarrow> Inr bytes))))"

definition fetchAnuQrngBytes :: "network \<Rightarrow> error + byte list" where
  "fetchAnuQrngBytes Get =
     (let url = anuURL in
      case Get 0 url of
        Inl err \<Rightarrow> Inl (''ANU QRNG request failed: '' @ err)
      | Inr resp \<Rightarrow>
          if StatusCode resp \<noteq> StatusOK
          then Inl (''ANU QRNG returned status '' @ fmt_d (StatusCode resp))
          else
            (case DecodeAnuQrng (Body resp) of
               Inl err \<Rightarrow> Inl (''failed to parse ANU QRNG response: '' @ err)
             | Inr anuResp \<Rightarrow>
                 if \<not> Success anuResp
                 then Inl ''ANU QRNG API returned success=false''
                 else if length (Data anuResp) \<noteq> bytesToFetch
                 then Inl (''expected '' @ fmt_d (int bytesToFetch) @ '' bytes, got ''
                           @ fmt_d (int (length (Data anuResp))))
                 else Inr (Data anuResp)))"

definition fetchRandomBytes :: "string \<Rightarrow> network \<Rightarrow> error + byte list" where
  "fetchRandomBytes source Get =
     (if source = ''qr'' then fetchQRandomBytes Get
      else if source = ''anu'' then fetchAnuQrngBytes Get
      else Inl (''unknown source: '' @ source @ '' (use 'qr' or 'anu')''))"

subsection \<open>The command-line mode\<close>

text \<open>
  What one run of \<^verbatim>\<open>runCLI\<close> leaves behind: the lines written to standard output
  and to standard error, and the exit code (\<^verbatim>\<open>os.Exit(1)\<close>, or 0 by returning).
\<close>

record Output =
  stdout :: "string list"
  stderr :: "string list"
  exit_code :: int

definition runCLI :: "string \<Rightarrow> network \<Rightarrow> Output" where
  "runCLI source Get =
     (case fetchRandomBytes source Get of
        Inl err \<Rightarrow> \<lparr>stdout = [], stderr = [''Error: '' @ err], exit_code = 1\<rparr>
      | Inr bytes \<Rightarrow>
          (let (ones, zeros) = countBits bytes in
           \<lparr>stdout =
              [''Ones: '' @ fmt_d ones,
               ''Zeros: '' @ fmt_d zeros,
               (if ones > zeros then ''Result: ONES''
                else if zeros > ones then ''Result: ZEROS''
                else ''Result: TIE'')],
            stderr = [], exit_code = 0\<rparr>))"

subsection \<open>Messages and commands of the interactive session\<close>

datatype resultType = resOnes | resZeros | resTie

record flipResult =
  ones :: int
  zeros :: int
  winner :: resultType

text \<open>
  A key press, as \<^verbatim>\<open>Update\<close> looks at it: by its \<^verbatim>\<open>Type\<close> in the label editor
  and by its \<^verbatim>\<open>String()\<close> elsewhere. Both come from the terminal library.
\<close>

datatype KeyType = KeyEnter | KeyEsc | KeyTab | KeyUp | KeyDown | KeyRunes | KeyOther

record Key =
  Type :: KeyType
  String :: string

text \<open>
  The messages \<^verbatim>\<open>Update\<close> can receive. \<^verbatim>\<open>flipMsg\<close> has the fields \<^verbatim>\<open>result\<close>
  and \<^verbatim>\<open>err\<close>; \<open>otherMsg\<close> is any message of the libraries (a cursor blink).
\<close>

datatype Msg =
  KeyMsg Key
| WindowSizeMsg int int
| flipMsg flipResult "error option"
| otherMsg

text \<open>
  The commands \<^verbatim>\<open>Update\<close> can return: \<^verbatim>\<open>nil\<close>, \<^verbatim>\<open>tea.Quit\<close>, the closure
  \<^verbatim>\<open>fetchAndFlipCmd(source)\<close>, and whatever the text input library hands back.
\<close>

datatype Cmd = CmdNil | Quit | FetchAndFlip string | TextinputCmd

text \<open>
  The closure of \<^verbatim>\<open>fetchAndFlipCmd(source)\<close>, run against a network: the message it
  returns. \<^verbatim>\<open>flipMsg{err: err}\<close> leaves \<^verbatim>\<open>result\<close> at its zero value.
\<close>

definition fetchAndFlipCmd :: "string \<Rightarrow> network \<Rightarrow> Msg" where
  "fetchAndFlipCmd source Get =
     (case fetchRandomBytes source Get of
        Inl err \<Rightarrow> flipMsg \<lparr>ones = 0, zeros = 0, winner = resOnes\<rparr> (Some err)
      | Inr bytes \<Rightarrow>
          (let (ones, zeros) = countBits bytes;
               res = \<lparr>ones = ones, zeros = zeros, winner = resTie\<rparr>;
               res = (if ones > zeros then res\<lparr>winner := resOnes\<rparr>
                      else if zeros > ones then res\<lparr>winner := resZeros\<rparr>
                      else res)
           in flipMsg res None))"

subsection \<open>The session of \<^verbatim>\<open>src/main.go\<close>\<close>

record model =
  source :: string
  results :: "flipResult list"
  loading :: bool
  err :: "error option"
  width :: int
  height :: int

definition initialModel :: "string \<Rightarrow> model" where
  "initialModel src =
     \<lparr>source = src, results = [], loading = False, err = None, width = 0, height = 0\<rparr>"

fun Update :: "model \<Rightarrow> Msg \<Rightarrow> model \<times> Cmd" where
  "Update m (KeyMsg k) =
     (if String k = ''q'' then (m, Quit)
      else if String k = ''enter'' then
        (if \<not> loading m
         then (m\<lparr>loading := True, err := None\<rparr>, FetchAndFlip (source m))
         else (m, CmdNil))
      else if String k = ''r'' then (m\<lparr>results := []\<rparr>, CmdNil)
      else if String k = ''c'' then
        (if source m = ''qr'' then (m\<lparr>source := ''anu''\<rparr>, CmdNil)
         else (m\<lparr>source := ''qr''\<rparr>, CmdNil))
      else (m, CmdNil))"
| "Update m (WindowSizeMsg w h) = (m\<lparr>width := w, height := h\<rparr>, CmdNil)"
| "Update m (flipMsg res e) =
     (case e of
        Some x \<Rightarrow> (m\<lparr>loading := False, err := Some x\<rparr>, CmdNil)
      | None \<Rightarrow> (m\<lparr>loading := False, results := results m @ [res]\<rparr>, CmdNil))"
| "Update m otherMsg = (m, CmdNil)"

subsection \<open>The session with label editing\<close>

text \<open>
  The later revision of \<^verbatim>\<open>main.go\<close> keeps the six fields and adds the two labels
  and the editor: two text inputs of the \<^verbatim>\<open>bubbles/textinput\<close> library and the
  index of the focused one (0 for ones, 1 for zeros). The library is not part of the
  program, so its operations are parameters; \<open>ti_New\<close> is \<^verbatim>\<open>textinput.New()\<close>
  with the placeholder, the width and the character limit set.
\<close>

record 'ti Textinput =
  ti_New :: "string \<Rightarrow> int \<Rightarrow> int \<Rightarrow> 'ti"
  ti_Value :: "'ti \<Rightarrow> string"
  ti_SetValue :: "'ti \<Rightarrow> string \<Rightarrow> 'ti"
  ti_Blur :: "'ti \<Rightarrow> 'ti"
  ti_Focus :: "'ti \<Rightarrow> 'ti"
  ti_Update :: "'ti \<Rightarrow> Msg \<Rightarrow> 'ti"

record 'ti modelL = model +
  onesMsg :: string
  zerosMsg :: string
  inputMode :: bool
  onesInput :: 'ti
  zerosInput :: 'ti
  focusedInput :: int

definition initialModelL :: "'ti Textinput \<Rightarrow> string \<Rightarrow> 'ti modelL" where
  "initialModelL T src =
     \<lparr>source = src, results = [], loading = False, err = None, width = 0, height = 0,
      onesMsg = ''ONES'', zerosMsg = ''ZEROS'', inputMode = False,
      onesInput = ti_New T ''Message for ONES winner'' 30 20,
      zerosInput = ti_New T ''Message for ZEROS winner'' 30 20,
      focusedInput = 0\<rparr>"

text \<open>The branch \<^verbatim>\<open>case tea.KeyTab, tea.KeyUp, tea.KeyDown\<close>.\<close>

definition switchFocus :: "'ti Textinput \<Rightarrow> 'ti modelL \<Rightarrow> 'ti modelL \<times> Cmd" where
  "switchFocus T m =
     (if focusedInput m = 0
      then (m\<lparr>focusedInput := 1, onesInput := ti_Blur T (onesInput m),
              zerosInput := ti_Focus T (zerosInput m)\<rparr>, TextinputCmd)
      else (m\<lparr>focusedInput := 0, zerosInput := ti_Blur T (zerosInput m),
              onesInput := ti_Focus T (onesInput m)\<rparr>, TextinputCmd))"

text \<open>
  The tail of the editor branch, \<^verbatim>\<open>// Update the focused text input\<close>, reached by
  every message the two switches above it do not return from.
\<close>

definition updateFocused :: "'ti Textinput \<Rightarrow> 'ti modelL \<Rightarrow> Msg \<Rightarrow> 'ti modelL \<times> Cmd" where
  "updateFocused T m msg =
     (if focusedInput m = 0
      then (m\<lparr>onesInput := ti_Update T (onesInput m) msg\<rparr>, TextinputCmd)
      else (m\<lparr>zerosInput := ti_Update T (zerosInput m) msg\<rparr>, TextinputCmd))"

text \<open>
  \<^verbatim>\<open>Update\<close> of the later revision. \<^verbatim>\<open>Blur\<close>, \<^verbatim>\<open>Focus\<close> and
  \<^verbatim>\<open>SetValue\<close> have pointer receivers and change the input held in \<^verbatim>\<open>m\<close>.
  The case of the key \<^verbatim>\<open>i\<close> ends with \<^verbatim>\<open>return m, m.onesInput.Focus()\<close>: Go
  leaves open whether \<^verbatim>\<open>m\<close> is read before or after the call; the model reads
  it after, as the Go compiler does, so the returned model holds the focused input.
  No claim below depends on the focus of an input.
\<close>

definition UpdateL :: "'ti Textinput \<Rightarrow> 'ti modelL \<Rightarrow> Msg \<Rightarrow> 'ti modelL \<times> Cmd" where
  "UpdateL T m msg =
     (if inputMode m then
        (case msg of
           KeyMsg k \<Rightarrow>
             (case Type k of
                KeyEnter \<Rightarrow>
                  (m\<lparr>onesMsg := ti_Value T (onesInput m),
                     zerosMsg := ti_Value T (zerosInput m),
                     inputMode := False,
                     onesInput := ti_Blur T (onesInput m),
                     zerosInput := ti_Blur T (zerosInput m)\<rparr>, CmdNil)
              | KeyEsc \<Rightarrow>
                  (m\<lparr>inputMode := False,
                     onesInput := ti_Blur T (onesInput m),
                     zerosInput := ti_Blur T (zerosInput m)\<rparr>, CmdNil)
              | KeyTab \<Rightarrow> switchFocus T m
              | KeyUp \<Rightarrow> switchFocus T m
              | KeyDown \<Rightarrow> switchFocus T m
              | _ \<Rightarrow> updateFocused T m msg)
         | _ \<Rightarrow> updateFocused T m msg)
      else
        (case msg of
           KeyMsg k \<Rightarrow>
             (if String k = ''q'' then (m, Quit)
              else if String k = ''enter'' then
                (if \<not> loading m
                 then (m\<lparr>loading := True, err := None\<rparr>, FetchAndFlip (source m))
                 else (m, CmdNil))
              else if String k = ''r'' then (m\<lparr>results := []\<rparr>, CmdNil)
              else if String k = ''c'' then
                (if source m = ''qr'' then (m\<lparr>source := ''anu''\<rparr>, CmdNil)
                 else (m\<lparr>source := ''qr''\<rparr>, CmdNil))
              else if String k = ''i'' then
                (m\<lparr>inputMode := True, focusedInput := 0,
                   onesInput := ti_Focus T (ti_SetValue T (onesInput m) (onesMsg m)),
                   zerosInput := ti_Blur T (ti_SetValue T (zerosInput m) (zerosMsg m))\<rparr>,
                 TextinputCmd)
              else (m, CmdNil))
         | WindowSizeMsg w h \<Rightarrow> (m\<lparr>width := w, height := h\<rparr>, CmdNil)
         | flipMsg res e \<Rightarrow>
             (case e of
                Some x \<Rightarrow> (m\<lparr>loading := False, err := Some x\<rparr>, CmdNil)
              | None \<Rightarrow> (m\<lparr>loading := False, results := results m @ [res]\<rparr>, CmdNil))
         | otherMsg \<Rightarrow> (m, CmdNil)))"

text \<open>
  The phase of the specification, read off the model the way \<^verbatim>\<open>View\<close> chooses what
  to draw: the editor when \<^verbatim>\<open>inputMode\<close> is set, else the loading line when
  \<^verbatim>\<open>loading\<close> is set.
\<close>

datatype UIPhase = IDLE | LOADING | LABEL_EDITING

definition phase :: "model \<Rightarrow> UIPhase" where
  "phase m = (if loading m then LOADING else IDLE)"

definition phaseL :: "'ti modelL \<Rightarrow> UIPhase" where
  "phaseL m = (if inputMode m then LABEL_EDITING else if loading m then LOADING else IDLE)"

subsection \<open>The event loop\<close>

text \<open>
  The loop of the terminal library around \<^verbatim>\<open>Update\<close>: it holds the model, hands it
  one message at a time, and runs each returned command off the loop; the message of
  a finished command is queued back. \<open>pending\<close> lists the sources of the fetches in
  flight, oldest first. \<^verbatim>\<open>tea.Quit\<close> ends the loop when its own message comes
  round; the messages handled until then are handled like any other, so the request
  is recorded in \<open>finished\<close> and the sequence of events may go on.
\<close>

record 'm Program =
  current :: 'm
  pending :: "string list"
  finished :: bool

definition NewProgram :: "'m \<Rightarrow> 'm Program" where
  "NewProgram m = \<lparr>current = m, pending = [], finished = False\<rparr>"

text \<open>
  An event is a message from outside (a key, a window size, a library message), or
  the completion of the \<open>i\<close>-th fetch in flight, against the network it met. Only
  \<^verbatim>\<open>fetchAndFlipCmd\<close> builds a \<^verbatim>\<open>flipMsg\<close>, so none comes from outside; an
  event that cannot happen (such a message, or the completion of a fetch that is not
  in flight) has no successor.
\<close>

datatype Event = Input Msg | Completion nat network

definition dispatch :: "('m \<Rightarrow> Msg \<Rightarrow> 'm \<times> Cmd) \<Rightarrow> 'm Program \<Rightarrow> Msg \<Rightarrow> 'm Program" where
  "dispatch upd p msg =
     (case upd (current p) msg of
        (m, c) \<Rightarrow>
          (case c of
             Quit \<Rightarrow> p\<lparr>current := m, finished := True\<rparr>
           | FetchAndFlip src \<Rightarrow> p\<lparr>current := m, pending := pending p @ [src]\<rparr>
           | _ \<Rightarrow> p\<lparr>current := m\<rparr>))"

definition step :: "('m \<Rightarrow> Msg \<Rightarrow> 'm \<times> Cmd) \<Rightarrow> 'm Program \<Rightarrow> Event \<Rightarrow> 'm Program option" where
  "step upd p ev =
     (case ev of
        Input msg \<Rightarrow>
          (case msg of
             flipMsg res e \<Rightarrow> None
           | _ \<Rightarrow> Some (dispatch upd p msg))
      | Completion i Get \<Rightarrow>
          (if i < length (pending p)
           then Some (dispatch upd
                        (p\<lparr>pending := take i (pending p) @ drop (Suc i) (pending p)\<rparr>)
                        (fetchAndFlipCmd (pending p ! i) Get))
           else None))"

fun run :: "('m \<Rightarrow> Msg \<Rightarrow> 'm \<times> Cmd) \<Rightarrow> 'm Program \<Rightarrow> Event list \<Rightarrow> 'm Program option" where
  "run upd p [] = Some p"
| "run upd p (ev # evs) =
     (case step upd p ev of
        None \<Rightarrow> None
      | Some p' \<Rightarrow> run upd p' evs)"

text \<open>The model after a sequence of messages, the commands left aside.\<close>

fun feed :: "('m \<Rightarrow> Msg \<Rightarrow> 'm \<times> Cmd) \<Rightarrow> 'm \<Rightarrow> Msg list \<Rightarrow> 'm" where
  "feed upd m [] = m"
| "feed upd m (msg # msgs) = feed upd (fst (upd m msg)) msgs"

subsection \<open>The entry point\<close>

text \<open>
  \<^verbatim>\<open>main\<close> after \<^verbatim>\<open>flag.Parse()\<close>, given the values of \<^verbatim>\<open>-s\<close> and \<^verbatim>\<open>-i\<close>: it
  starts the session on the initial model, or runs the command-line mode.
\<close>

definition main :: "string \<Rightarrow> bool \<Rightarrow> network \<Rightarrow> model Program + Output" where
  "main flag_s flag_i Get =
     (if flag_i then Inl (NewProgram (initialModel flag_s))
      else Inr (runCLI flag_s Get))"

definition mainL :: "'ti Textinput \<Rightarrow> string \<Rightarrow> bool \<Rightarrow> network \<Rightarrow> 'ti modelL Program + Output" where
  "mainL T flag_s flag_i Get =
     (if flag_i then Inl (NewProgram (initialModelL T flag_s))
      else Inr (runCLI flag_s Get))"

subsection \<open>Sample environments\<close>

text \<open>
  Concrete networks and a concrete text input, for running the definitions. The
  binary link of the first answers is \<^verbatim>\<open>https://qrandom.io/b\<close>.
\<close>

definition jsonLink :: Body where
  "jsonLink =
     \<lparr>ReadAll = Inr [],
      DecodeQRandom = Inr \<lparr>BinaryURL = ''https://qrandom.io/b''\<rparr>,
      DecodeAnuQrng = Inr \<lparr>Data = [], Success = False\<rparr>\<rparr>"

definition rawBody :: "byte list \<Rightarrow> Body" where
  "rawBody bytes =
     \<lparr>ReadAll = Inr bytes,
      DecodeQRandom = Inl ''invalid character'',
      DecodeAnuQrng = Inl ''invalid character''\<rparr>"

definition jsonAnu :: "byte list \<Rightarrow> bool \<Rightarrow> Body" where
  "jsonAnu bytes ok =
     \<lparr>ReadAll = Inr [],
      DecodeQRandom = Inr \<lparr>BinaryURL = []\<rparr>,
      DecodeAnuQrng = Inr \<lparr>Data = bytes, Success = ok\<rparr>\<rparr>"

text \<open>
  A qrandom.io that answers the first GET with the given status and the link, and
  the second GET with the given status and the given bytes.\<close>

definition netQRandom :: "int \<Rightarrow> int \<Rightarrow> byte list \<Rightarrow> network" where
  "netQRandom st1 st2 bytes n url =
     (if n = 0 then Inr \<lparr>StatusCode = st1, Body = jsonLink\<rparr>
      else Inr \<lparr>StatusCode = st2, Body = rawBody bytes\<rparr>)"

text \<open>An ANU service that answers with the given status, array and success flag.\<close>

definition netAnu :: "int \<Rightarrow> byte list \<Rightarrow> bool \<Rightarrow> network" where
  "netAnu st bytes ok n url = Inr \<lparr>StatusCode = st, Body = jsonAnu bytes ok\<rparr>"

text \<open>A network on which every GET times out.\<close>

definition netDown :: network where
  "netDown n url = Inl ''context deadline exceeded''"

text \<open>
  A text input reduced to its text and its focus: a focused input appends the runes
  of a key, and ignores every other message.\<close>

definition plainInput :: "(string \<times> bool) Textinput" where
  "plainInput =
     \<lparr>ti_New = (\<lambda>placeholder w limit. ([], False)),
      ti_Value = (\<lambda>t. fst t),
      ti_SetValue = (\<lambda>t v. (v, snd t)),
      ti_Blur = (\<lambda>t. (fst t, False)),
      ti_Focus = (\<lambda>t. (fst t, True)),
      ti_Update = (\<lambda>t msg.
        case msg of
          KeyMsg k \<Rightarrow> (if snd t \<and> Type k = KeyRunes then (fst t @ String k, snd t) else t)
        | _ \<Rightarrow> t)\<rparr>"

text \<open>The keys the session knows, as the terminal library reports them.\<close>

definition keyEnter :: Msg where
  "keyEnter = KeyMsg \<lparr>Type = KeyEnter, String = ''enter''\<rparr>"

definition keyEsc :: Msg where
  "keyEsc = KeyMsg \<lparr>Type = KeyEsc, String = ''esc''\<rparr>"

definition keyTab :: Msg where
  "keyTab = KeyMsg \<lparr>Type = KeyTab, String = ''tab''\<rparr>"

definition keyRune :: "char \<Rightarrow> Msg" where
  "keyRune c = KeyMsg \<lparr>Type = KeyRunes, String = [c]\<rparr>"

section \<open>The bit counter counts\<close>

lemma countBitsInner_count_pair:
  "i \<le> 8 \<Longrightarrow>
   countBitsInner b i c =
     (fst c + int (length (filter (\<lambda>j. bit b j) [i..<8])),
      snd c + int (length (filter (\<lambda>j. \<not> bit b j) [i..<8])))"
proof (induction b i c rule: countBitsInner.induct)
  case (1 b i n1 n0)
  show ?case
  proof (cases "i < 8")
    case False
    with "1.prems" have "i = 8" by simp
    then show ?thesis by (simp add: countBitsInner.simps [of b 8])
  next
    case True
    then have upt: "[i..<8] = i # [i + 1..<8]"
      by (simp add: upt_conv_Cons)
    have test: "(b AND push_bit i 1 \<noteq> 0) = bit b i"
      by (simp add: bit_iff_and_push_bit_not_eq_0)
    show ?thesis
    proof (cases "bit b i")
      case True
      with \<open>i < 8\<close> test have "countBitsInner b (i + 1) (n1 + 1, n0) =
          (fst (n1 + 1, n0) + int (length (filter (\<lambda>j. bit b j) [i + 1..<8])),
           snd (n1 + 1, n0) + int (length (filter (\<lambda>j. \<not> bit b j) [i + 1..<8])))"
        by (intro "1.IH"(1)) simp_all
      with True \<open>i < 8\<close> test upt show ?thesis
        by (simp add: countBitsInner.simps [of b i])
    next
      case False
      with \<open>i < 8\<close> test have "countBitsInner b (i + 1) (n1, n0 + 1) =
          (fst (n1, n0 + 1) + int (length (filter (\<lambda>j. bit b j) [i + 1..<8])),
           snd (n1, n0 + 1) + int (length (filter (\<lambda>j. \<not> bit b j) [i + 1..<8])))"
        by (intro "1.IH"(2)) simp_all
      with False \<open>i < 8\<close> test upt show ?thesis
        by (simp add: countBitsInner.simps [of b i])
    qed
  qed
qed

lemma countBitsInner_count:
  "countBitsInner b 0 (n1, n0) =
     (n1 + int (length (filter (\<lambda>j. bit b j) [0..<8])),
      n0 + int (length (filter (\<lambda>j. \<not> bit b j) [0..<8])))"
  using countBitsInner_count_pair [of 0 b "(n1, n0)"] by simp

lemma card_positions:
  "card {j. j < 8 \<and> P j} = length (filter P [0..<8])"
proof -
  have "{j. j < 8 \<and> P j} = set (filter P [0..<8])"
    by auto
  then show ?thesis
    by (simp only: distinct_card [OF distinct_filter [OF distinct_upt]])
qed

lemma countBitsOuter_count:
  "countBitsOuter bytes (n1, n0) =
     (n1 + int (\<Sum>b\<leftarrow>bytes. card {j. j < 8 \<and> bit b j}),
      n0 + int (\<Sum>b\<leftarrow>bytes. card {j. j < 8 \<and> \<not> bit b j}))"
proof (induction bytes arbitrary: n1 n0)
  case Nil
  show ?case by simp
next
  case (Cons b bytes)
  show ?case
    by (simp add: countBitsInner_count Cons.IH card_positions)
qed

lemma positions_split:
  "length (filter P [0..<8]) + length (filter (\<lambda>j. \<not> P j) [0..<8]) = 8"
  using sum_length_filter_compl [of P "[0..<8]"] by simp

lemma countBitsOuter_total:
  "fst (countBitsOuter bytes (n1, n0)) + snd (countBitsOuter bytes (n1, n0)) =
     n1 + n0 + 8 * int (length bytes)"
proof (induction bytes arbitrary: n1 n0)
  case Nil
  show ?case by simp
next
  case (Cons b bytes)
  have "int (length (filter (\<lambda>j. bit b j) [0..<8]))
      + int (length (filter (\<lambda>j. \<not> bit b j) [0..<8])) = 8"
    using positions_split [of "\<lambda>j. bit b j"] by linarith
  then show ?case
    by (simp add: countBitsInner_count Cons.IH)
qed

lemma countBits_total:
  "fst (countBits bytes) + snd (countBits bytes) = 8 * int (length bytes)"
  using countBitsOuter_total [of bytes 0 0] by (simp add: countBits_def)

text \<open>
  Claim C1. For every byte sequence, the empty one included, \<^verbatim>\<open>countBits\<close> returns
  the pair of the number of set bits and the number of unset bits over the 8 bit
  positions of every byte, the two add up to 8 times the length, and the empty
  sequence gives (0, 0). The function is a total function of its argument alone: it
  has no error result and reads no state.
\<close>

theorem countBits_counts:
  "countBits bytes =
     (int (\<Sum>b\<leftarrow>bytes. card {j. j < 8 \<and> bit b j}),
      int (\<Sum>b\<leftarrow>bytes. card {j. j < 8 \<and> \<not> bit b j}))
   \<and> fst (countBits bytes) + snd (countBits bytes) = 8 * int (length bytes)
   \<and> countBits [] = (0, 0)"
proof -
  have "countBits bytes =
     (int (\<Sum>b\<leftarrow>bytes. card {j. j < 8 \<and> bit b j}),
      int (\<Sum>b\<leftarrow>bytes. card {j. j < 8 \<and> \<not> bit b j}))"
    using countBitsOuter_count [of bytes 0 0] by (simp add: countBits_def)
  moreover have "countBits [] = (0, 0)"
    by (simp add: countBits_def)
  ultimately show ?thesis
    using countBits_total [of bytes] by simp
qed

section \<open>Running the definitions\<close>

text \<open>Both addresses ask for 1024 bytes.\<close>

lemma fmt_d_1024: "fmt_d 1024 = ''1024''"
  by (simp add: fmt_d_def decimal.simps digit_def)

lemma requested_length:
  "qrandomURL = ''https://qrandom.io/api/random/binary?bytes=1024''
   \<and> anuURL = ''https://qrng.anu.edu.au/API/jsonI.php?length=1024&type=uint8''"
  by (simp add: qrandomURL_def anuURL_def bytesToFetch_def fmt_d_1024)

text \<open>A qrandom.io that answers well hands over the bytes it serves.\<close>

lemma fetch_sample_qr: "fetchRandomBytes ''qr'' (netQRandom 200 200 bytes) = Inr bytes"
  by (simp add: fetchRandomBytes_def fetchQRandomBytes_def netQRandom_def jsonLink_def
      rawBody_def StatusOK_def)

text \<open>The counts of one byte: all ones, all zeros, and four of each.\<close>

lemma countBits_255: "countBits [255] = (8, 0)"
  by (simp add: countBits_def countBitsInner.simps)

lemma countBits_0: "countBits [0] = (0, 8)"
  by (simp add: countBits_def countBitsInner.simps)

lemma countBits_15: "countBits [15] = (4, 4)"
  by (simp add: countBits_def countBitsInner.simps)

text \<open>The definitions that an execution on concrete events unfolds.\<close>

lemmas eval_run = step_def dispatch_def NewProgram_def initialModel_def initialModelL_def
  keyEnter_def keyEsc_def keyTab_def keyRune_def

section \<open>The verdict\<close>

text \<open>
  Claim C2. When the fetch returns bytes and \<^verbatim>\<open>countBits\<close> counts (ones, zeros) in
  them, the verdict is ONES if ones > zeros, ZEROS if zeros > ones and TIE if they are
  equal, both in the message of \<^verbatim>\<open>fetchAndFlipCmd\<close> and in the last line
  \<^verbatim>\<open>runCLI\<close> prints.
\<close>

theorem verdict_rule:
  assumes "fetchRandomBytes src Get = Inr bytes" and "countBits bytes = (n1, n0)"
  shows "(n0 < n1 \<longrightarrow>
            fetchAndFlipCmd src Get = flipMsg \<lparr>ones = n1, zeros = n0, winner = resOnes\<rparr> None
          \<and> stdout (runCLI src Get) =
              [''Ones: '' @ fmt_d n1, ''Zeros: '' @ fmt_d n0, ''Result: ONES''])
       \<and> (n1 < n0 \<longrightarrow>
            fetchAndFlipCmd src Get = flipMsg \<lparr>ones = n1, zeros = n0, winner = resZeros\<rparr> None
          \<and> stdout (runCLI src Get) =
              [''Ones: '' @ fmt_d n1, ''Zeros: '' @ fmt_d n0, ''Result: ZEROS''])
       \<and> (n1 = n0 \<longrightarrow>
            fetchAndFlipCmd src Get = flipMsg \<lparr>ones = n1, zeros = n0, winner = resTie\<rparr> None
          \<and> stdout (runCLI src Get) =
              [''Ones: '' @ fmt_d n1, ''Zeros: '' @ fmt_d n0, ''Result: TIE''])"
  using assms by (simp add: fetchAndFlipCmd_def runCLI_def)

text \<open>The rule at work on one byte of each kind.\<close>

theorem verdict_rule_witness:
  "fetchAndFlipCmd ''qr'' (netQRandom 200 200 [255]) =
     flipMsg \<lparr>ones = 8, zeros = 0, winner = resOnes\<rparr> None
   \<and> stdout (runCLI ''qr'' (netQRandom 200 200 [255])) = [''Ones: 8'', ''Zeros: 0'', ''Result: ONES'']
   \<and> fetchAndFlipCmd ''qr'' (netQRandom 200 200 [0]) =
     flipMsg \<lparr>ones = 0, zeros = 8, winner = resZeros\<rparr> None
   \<and> stdout (runCLI ''qr'' (netQRandom 200 200 [0])) = [''Ones: 0'', ''Zeros: 8'', ''Result: ZEROS'']
   \<and> fetchAndFlipCmd ''qr'' (netQRandom 200 200 [15]) =
     flipMsg \<lparr>ones = 4, zeros = 4, winner = resTie\<rparr> None
   \<and> stdout (runCLI ''qr'' (netQRandom 200 200 [15])) = [''Ones: 4'', ''Zeros: 4'', ''Result: TIE'']"
proof -
  have d: "fmt_d 8 = ''8''" "fmt_d 0 = ''0''" "fmt_d 4 = ''4''"
    by (simp_all add: fmt_d_def decimal.simps digit_def)
  show ?thesis
    using verdict_rule [OF fetch_sample_qr countBits_255]
      verdict_rule [OF fetch_sample_qr countBits_0]
      verdict_rule [OF fetch_sample_qr countBits_15]
    by (simp add: d)
qed

section \<open>The two fetchers\<close>

text \<open>
  Claim C5. The ANU fetch fails whenever the decoded response has success = false,
  whatever the length of its array, and whenever the length of the array is not 1024;
  it returns bytes exactly when the GET answers with status 200, the JSON decodes,
  success is true and the array has 1024 bytes, and the bytes are then the array as it
  came.
\<close>

theorem anu_strict:
  "(Get 0 anuURL = Inr resp \<longrightarrow> DecodeAnuQrng (Body resp) = Inr r \<longrightarrow> \<not> Success r \<longrightarrow>
      (\<exists>e. fetchAnuQrngBytes Get = Inl e))
   \<and> (Get 0 anuURL = Inr resp \<longrightarrow> DecodeAnuQrng (Body resp) = Inr r \<longrightarrow>
        length (Data r) \<noteq> 1024 \<longrightarrow>
      (\<exists>e. fetchAnuQrngBytes Get = Inl e))
   \<and> ((fetchAnuQrngBytes Get = Inr bytes) =
        (\<exists>resp r. Get 0 anuURL = Inr resp \<and> StatusCode resp = 200
                  \<and> DecodeAnuQrng (Body resp) = Inr r \<and> Success r
                  \<and> length (Data r) = 1024 \<and> bytes = Data r))"
  by (auto simp: fetchAnuQrngBytes_def bytesToFetch_def StatusOK_def
           split: sum.splits if_splits)

theorem anu_strict_witness:
  "(\<exists>e. fetchAnuQrngBytes (netAnu 200 (replicate 1024 7) False) = Inl e)
   \<and> (\<exists>e. fetchAnuQrngBytes (netAnu 200 [7] True) = Inl e)
   \<and> fetchAnuQrngBytes (netAnu 200 (replicate 1024 7) True) = Inr (replicate 1024 7)"
proof -
  let ?body = "\<lambda>bytes ok. \<lparr>StatusCode = 200, Body = jsonAnu bytes ok\<rparr>"
  have 1: "\<exists>e. fetchAnuQrngBytes (netAnu 200 (replicate 1024 7) False) = Inl e"
    using anu_strict [of "netAnu 200 (replicate 1024 7) False" "?body (replicate 1024 7) False"
        "\<lparr>Data = replicate 1024 7, Success = False\<rparr>"]
    by (simp add: netAnu_def jsonAnu_def)
  have 2: "\<exists>e. fetchAnuQrngBytes (netAnu 200 [7] True) = Inl e"
    using anu_strict [of "netAnu 200 [7] True" "?body [7] True" "\<lparr>Data = [7], Success = True\<rparr>"]
    by (simp add: netAnu_def jsonAnu_def)
  have 3: "fetchAnuQrngBytes (netAnu 200 (replicate 1024 7) True) = Inr (replicate 1024 7)"
    using anu_strict [of "netAnu 200 (replicate 1024 7) True" _ _ "replicate 1024 7"]
    by (simp add: netAnu_def jsonAnu_def)
  from 1 2 3 show ?thesis by simp
qed

text \<open>
  Claim C6, as amended. The qrandom.io fetch fails, each time with a message of its
  own, exactly when a GET of either phase fails in transport or answers with a status
  other than 200, or the first body does not decode, or reading the second body
  fails; when both phases succeed the bytes read from the second body are returned,
  whatever their number.
\<close>

theorem qrandom_failures:
  "(Get 0 qrandomURL = Inl e \<longrightarrow>
      fetchQRandomBytes Get = Inl (''qrandom.io request failed: '' @ e))
   \<and> (Get 0 qrandomURL = Inr resp \<longrightarrow> StatusCode resp \<noteq> 200 \<longrightarrow>
      fetchQRandomBytes Get = Inl (''qrandom.io returned status '' @ fmt_d (StatusCode resp)))
   \<and> (Get 0 qrandomURL = Inr resp \<longrightarrow> StatusCode resp = 200 \<longrightarrow>
      DecodeQRandom (Body resp) = Inl e \<longrightarrow>
      fetchQRandomBytes Get = Inl (''failed to parse qrandom.io response: '' @ e))
   \<and> (Get 0 qrandomURL = Inr resp \<longrightarrow> StatusCode resp = 200 \<longrightarrow>
      DecodeQRandom (Body resp) = Inr qrResp \<longrightarrow> Get 1 (BinaryURL qrResp) = Inl e \<longrightarrow>
      fetchQRandomBytes Get = Inl (''failed to fetch binary data: '' @ e))
   \<and> (Get 0 qrandomURL = Inr resp \<longrightarrow> StatusCode resp = 200 \<longrightarrow>
      DecodeQRandom (Body resp) = Inr qrResp \<longrightarrow> Get 1 (BinaryURL qrResp) = Inr binaryResp \<longrightarrow>
      StatusCode binaryResp \<noteq> 200 \<longrightarrow>
      fetchQRandomBytes Get =
        Inl (''binary fetch returned status '' @ fmt_d (StatusCode binaryResp)))
   \<and> (Get 0 qrandomURL = Inr resp \<longrightarrow> StatusCode resp = 200 \<longrightarrow>
      DecodeQRandom (Body resp) = Inr qrResp \<longrightarrow> Get 1 (BinaryURL qrResp) = Inr binaryResp \<longrightarrow>
      StatusCode binaryResp = 200 \<longrightarrow> ReadAll (Body binaryResp) = Inl e \<longrightarrow>
      fetchQRandomBytes Get = Inl (''failed to read binary data: '' @ e))
   \<and> ((fetchQRandomBytes Get = Inr bytes) =
        (\<exists>resp qrResp binaryResp.
            Get 0 qrandomURL = Inr resp \<and> StatusCode resp = 200
          \<and> DecodeQRandom (Body resp) = Inr qrResp
          \<and> Get 1 (BinaryURL qrResp) = Inr binaryResp \<and> StatusCode binaryResp = 200
          \<and> ReadAll (Body binaryResp) = Inr bytes))
   \<and> distinct
        [''qrandom.io request failed: '' @ e1,
         ''qrandom.io returned status '' @ fmt_d s1,
         ''failed to parse qrandom.io response: '' @ e2,
         ''failed to fetch binary data: '' @ e3,
         ''binary fetch returned status '' @ fmt_d s2,
         ''failed to read binary data: '' @ e4]"
proof -
  have ok: "(fetchQRandomBytes Get = Inr bytes) =
        (\<exists>resp qrResp binaryResp.
            Get 0 qrandomURL = Inr resp \<and> StatusCode resp = 200
          \<and> DecodeQRandom (Body resp) = Inr qrResp
          \<and> Get 1 (BinaryURL qrResp) = Inr binaryResp \<and> StatusCode binaryResp = 200
          \<and> ReadAll (Body binaryResp) = Inr bytes)"
    by (auto simp: fetchQRandomBytes_def StatusOK_def split: sum.splits if_splits)
  have causes: "distinct
        [''qrandom.io request failed: '' @ e1,
         ''qrandom.io returned status '' @ fmt_d s1,
         ''failed to parse qrandom.io response: '' @ e2,
         ''failed to fetch binary data: '' @ e3,
         ''binary fetch returned status '' @ fmt_d s2,
         ''failed to read binary data: '' @ e4]"
    by simp
  have fails: "Get 0 qrandomURL = Inl e \<longrightarrow>
      fetchQRandomBytes Get = Inl (''qrandom.io request failed: '' @ e)"
    "Get 0 qrandomURL = Inr resp \<longrightarrow> StatusCode resp \<noteq> 200 \<longrightarrow>
      fetchQRandomBytes Get = Inl (''qrandom.io returned status '' @ fmt_d (StatusCode resp))"
    "Get 0 qrandomURL = Inr resp \<longrightarrow> StatusCode resp = 200 \<longrightarrow>
      DecodeQRandom (Body resp) = Inl e \<longrightarrow>
      fetchQRandomBytes Get = Inl (''failed to parse qrandom.io response: '' @ e)"
    "Get 0 qrandomURL = Inr resp \<longrightarrow> StatusCode resp = 200 \<longrightarrow>
      DecodeQRandom (Body resp) = Inr qrResp \<longrightarrow> Get 1 (BinaryURL qrResp) = Inl e \<longrightarrow>
      fetchQRandomBytes Get = Inl (''failed to fetch binary data: '' @ e)"
    "Get 0 qrandomURL = Inr resp \<longrightarrow> StatusCode resp = 200 \<longrightarrow>
      DecodeQRandom (Body resp) = Inr qrResp \<longrightarrow> Get 1 (BinaryURL qrResp) = Inr binaryResp \<longrightarrow>
      StatusCode binaryResp \<noteq> 200 \<longrightarrow>
      fetchQRandomBytes Get =
        Inl (''binary fetch returned status '' @ fmt_d (StatusCode binaryResp))"
    "Get 0 qrandomURL = Inr resp \<longrightarrow> StatusCode resp = 200 \<longrightarrow>
      DecodeQRandom (Body resp) = Inr qrResp \<longrightarrow> Get 1 (BinaryURL qrResp) = Inr binaryResp \<longrightarrow>
      StatusCode binaryResp = 200 \<longrightarrow> ReadAll (Body binaryResp) = Inl e \<longrightarrow>
      fetchQRandomBytes Get = Inl (''failed to read binary data: '' @ e)"
    by (simp_all add: fetchQRandomBytes_def StatusOK_def)
  from fails ok causes show ?thesis
    by (intro conjI)
qed

theorem qrandom_failures_witness:
  "fetchQRandomBytes netDown = Inl ''qrandom.io request failed: context deadline exceeded''
   \<and> fetchQRandomBytes (netQRandom 500 200 [255]) = Inl ''qrandom.io returned status 500''
   \<and> fetchQRandomBytes (netQRandom 200 404 [255]) = Inl ''binary fetch returned status 404''
   \<and> fetchQRandomBytes (netQRandom 200 200 [255]) = Inr [255]"
proof -
  have d: "fmt_d 500 = ''500''" "fmt_d 404 = ''404''"
    by (simp_all add: fmt_d_def decimal.simps digit_def)
  have 1: "fetchQRandomBytes netDown = Inl ''qrandom.io request failed: context deadline exceeded''"
    using qrandom_failures [of netDown "''context deadline exceeded''"]
    by (simp add: netDown_def)
  have 2: "fetchQRandomBytes (netQRandom 500 200 [255]) = Inl ''qrandom.io returned status 500''"
    using qrandom_failures [of "netQRandom 500 200 [255]" _ "\<lparr>StatusCode = 500, Body = jsonLink\<rparr>"]
    by (simp add: netQRandom_def d)
  have 3: "fetchQRandomBytes (netQRandom 200 404 [255]) = Inl ''binary fetch returned status 404''"
    using qrandom_failures [of "netQRandom 200 404 [255]" _ "\<lparr>StatusCode = 200, Body = jsonLink\<rparr>"
        "\<lparr>BinaryURL = ''https://qrandom.io/b''\<rparr>" "\<lparr>StatusCode = 404, Body = rawBody [255]\<rparr>"]
    by (simp add: netQRandom_def jsonLink_def d)
  have 4: "fetchQRandomBytes (netQRandom 200 200 [255]) = Inr [255]"
    using qrandom_failures [of "netQRandom 200 200 [255]" _ _ _ _ "[255]"]
    by (simp add: netQRandom_def jsonLink_def rawBody_def)
  from 1 2 3 4 show ?thesis by simp
qed

text \<open>
  The claim as first stated spoke of a non-2xx status. A first answer with status 204
  is a 2xx answer with a body that decodes, followed by a good second answer, and the
  fetch fails on it.
\<close>

theorem qrandom_status_204_counterexample:
  "netQRandom 204 200 [255] 0 qrandomURL = Inr \<lparr>StatusCode = 204, Body = jsonLink\<rparr>
   \<and> (200 :: int) \<le> 204 \<and> (204 :: int) < 300
   \<and> DecodeQRandom jsonLink = Inr \<lparr>BinaryURL = ''https://qrandom.io/b''\<rparr>
   \<and> netQRandom 204 200 [255] 1 ''https://qrandom.io/b'' = Inr \<lparr>StatusCode = 200, Body = rawBody [255]\<rparr>
   \<and> ReadAll (rawBody [255]) = Inr [255]
   \<and> fetchQRandomBytes (netQRandom 204 200 [255]) = Inl ''qrandom.io returned status 204''"
proof -
  have d: "fmt_d 204 = ''204''"
    by (simp add: fmt_d_def decimal.simps digit_def)
  show ?thesis
    by (simp add: fetchQRandomBytes_def netQRandom_def jsonLink_def rawBody_def StatusOK_def d)
qed

section \<open>One fetch at a time\<close>

text \<open>A fetch starts only from a model that is not loading, and sets \<^verbatim>\<open>loading\<close>.\<close>

lemma Update_issue:
  "Update m msg = (m', FetchAndFlip s) \<Longrightarrow> \<not> loading m \<and> loading m' \<and> s = source m"
  by (cases msg) (auto split: if_splits option.splits)

lemma Update_keeps_loading:
  "Update m msg = (m', c) \<Longrightarrow> loading m \<Longrightarrow> \<forall>r e. msg \<noteq> flipMsg r e \<Longrightarrow> loading m'"
  by (cases msg) (auto split: if_splits option.splits)

lemma UpdateL_issue:
  "UpdateL T m msg = (m', FetchAndFlip s) \<Longrightarrow> \<not> loading m \<and> loading m' \<and> s = source m"
  by (cases msg)
     (auto simp: UpdateL_def switchFocus_def updateFocused_def
           split: if_splits option.splits KeyType.splits)

lemma UpdateL_keeps_loading:
  "UpdateL T m msg = (m', c) \<Longrightarrow> loading m \<Longrightarrow> \<forall>r e. msg \<noteq> flipMsg r e \<Longrightarrow> loading m'"
  by (cases msg)
     (auto simp: UpdateL_def switchFocus_def updateFocused_def
           split: if_splits option.splits KeyType.splits)

text \<open>
  One fetch at a time, for any update function that starts a fetch only when it is
  not busy and is busy afterwards, and that stays busy until a \<^verbatim>\<open>flipMsg\<close> comes.
\<close>

lemma dispatch_one_fetch:
  assumes issue: "\<forall>m msg m' s. upd m msg = (m', FetchAndFlip s) \<longrightarrow> \<not> busy m \<and> busy m'"
    and inv: "length (pending p) \<le> 1" "pending p \<noteq> [] \<longrightarrow> busy (current p)"
    and keep: "\<forall>m' c. upd (current p) msg = (m', c) \<longrightarrow> pending p \<noteq> [] \<longrightarrow> busy m'"
  shows "length (pending (dispatch upd p msg)) \<le> 1
       \<and> (pending (dispatch upd p msg) \<noteq> [] \<longrightarrow> busy (current (dispatch upd p msg)))"
proof -
  obtain m' c where u: "upd (current p) msg = (m', c)"
    by (cases "upd (current p) msg")
  show ?thesis
  proof (cases c)
    case (FetchAndFlip s)
    with u issue have "\<not> busy (current p)" "busy m'" by blast+
    with inv(2) have "pending p = []" by blast
    with u FetchAndFlip \<open>busy m'\<close> show ?thesis by (simp add: dispatch_def)
  next
    case CmdNil
    with u inv keep show ?thesis by (simp add: dispatch_def)
  next
    case Quit
    with u inv keep show ?thesis by (simp add: dispatch_def)
  next
    case TextinputCmd
    with u inv keep show ?thesis by (simp add: dispatch_def)
  qed
qed

lemma step_one_fetch:
  assumes issue: "\<forall>m msg m' s. upd m msg = (m', FetchAndFlip s) \<longrightarrow> \<not> busy m \<and> busy m'"
    and keep: "\<forall>m msg m' c. upd m msg = (m', c) \<longrightarrow> busy m \<longrightarrow> (\<forall>r e. msg \<noteq> flipMsg r e) \<longrightarrow> busy m'"
    and st: "step upd p ev = Some p'"
    and inv: "length (pending p) \<le> 1" "pending p \<noteq> [] \<longrightarrow> busy (current p)"
  shows "length (pending p') \<le> 1 \<and> (pending p' \<noteq> [] \<longrightarrow> busy (current p'))"
proof (cases ev)
  case (Input msg)
  with st have p': "p' = dispatch upd p msg" and nf: "\<forall>r e. msg \<noteq> flipMsg r e"
    by (auto simp: step_def split: if_splits Msg.splits)
  have k: "\<forall>m' c. upd (current p) msg = (m', c) \<longrightarrow> pending p \<noteq> [] \<longrightarrow> busy m'"
    using keep inv(2) nf by blast
  show ?thesis
    unfolding p' by (rule dispatch_one_fetch [OF issue inv k])
next
  case (Completion i Get)
  let ?q = "p\<lparr>pending := take i (pending p) @ drop (Suc i) (pending p)\<rparr>"
  from st Completion have i: "i < length (pending p)"
    and p': "p' = dispatch upd ?q (fetchAndFlipCmd (pending p ! i) Get)"
    by (auto simp: step_def split: if_splits)
  from i inv(1) have "i = 0" "length (pending p) = 1" by arith+
  then have e: "pending ?q = []" by simp
  have q: "length (pending ?q) \<le> 1" "pending ?q \<noteq> [] \<longrightarrow> busy (current ?q)"
    "\<forall>m' c. upd (current ?q) (fetchAndFlipCmd (pending p ! i) Get) = (m', c) \<longrightarrow>
       pending ?q \<noteq> [] \<longrightarrow> busy m'"
    unfolding e by simp_all
  show ?thesis
    unfolding p' by (rule dispatch_one_fetch [OF issue q])
qed

lemma run_one_fetch:
  assumes issue: "\<forall>m msg m' s. upd m msg = (m', FetchAndFlip s) \<longrightarrow> \<not> busy m \<and> busy m'"
    and keep: "\<forall>m msg m' c. upd m msg = (m', c) \<longrightarrow> busy m \<longrightarrow> (\<forall>r e. msg \<noteq> flipMsg r e) \<longrightarrow> busy m'"
  shows "run upd p evs = Some p' \<Longrightarrow> length (pending p) \<le> 1 \<Longrightarrow>
         pending p \<noteq> [] \<longrightarrow> busy (current p) \<Longrightarrow>
         length (pending p') \<le> 1 \<and> (pending p' \<noteq> [] \<longrightarrow> busy (current p'))"
proof (induction evs arbitrary: p)
  case Nil
  then show ?case by simp
next
  case (Cons ev evs)
  from Cons.prems(1) obtain q where q: "step upd p ev = Some q" and r: "run upd q evs = Some p'"
    by (auto split: option.splits)
  have "length (pending q) \<le> 1 \<and> (pending q \<noteq> [] \<longrightarrow> busy (current q))"
    by (rule step_one_fetch [OF issue keep q Cons.prems(2,3)])
  with Cons.IH [OF r] show ?case by blast
qed

lemma run_Update_one_fetch:
  assumes "run Update (NewProgram m) evs = Some p"
  shows "length (pending p) \<le> 1"
proof -
  have issue: "\<forall>m msg m' s. Update m msg = (m', FetchAndFlip s) \<longrightarrow> \<not> loading m \<and> loading m'"
    using Update_issue by blast
  have keep: "\<forall>m msg m' c. Update m msg = (m', c) \<longrightarrow> loading m \<longrightarrow>
      (\<forall>r e. msg \<noteq> flipMsg r e) \<longrightarrow> loading m'"
    using Update_keeps_loading by blast
  have "length (pending (NewProgram m)) \<le> 1"
    "pending (NewProgram m) \<noteq> [] \<longrightarrow> loading (current (NewProgram m))"
    by (simp_all add: NewProgram_def)
  from run_one_fetch [OF issue keep assms this] show ?thesis by simp
qed

lemma run_UpdateL_one_fetch:
  assumes "run (UpdateL T) (NewProgram m) evs = Some p"
  shows "length (pending p) \<le> 1"
proof -
  have issue: "\<forall>m msg m' s. UpdateL T m msg = (m', FetchAndFlip s) \<longrightarrow> \<not> loading m \<and> loading m'"
    using UpdateL_issue by blast
  have keep: "\<forall>m msg m' c. UpdateL T m msg = (m', c) \<longrightarrow> loading m \<longrightarrow>
      (\<forall>r e. msg \<noteq> flipMsg r e) \<longrightarrow> loading m'"
    using UpdateL_keeps_loading by blast
  have "length (pending (NewProgram m)) \<le> 1"
    "pending (NewProgram m) \<noteq> [] \<longrightarrow> loading (current (NewProgram m))"
    by (simp_all add: NewProgram_def)
  from run_one_fetch [OF issue keep assms this] show ?thesis by simp
qed

text \<open>
  Claim C7. A flip request (the key \<^verbatim>\<open>enter\<close>) in the LOADING phase leaves the
  model as it is and returns no command, in both revisions of the session; and in
  every execution of the event loop from the initial model, at most one fetch is in
  flight at any time.
\<close>

theorem no_second_fetch:
  "(phase m = LOADING \<longrightarrow> String k = ''enter'' \<longrightarrow> Update m (KeyMsg k) = (m, CmdNil))
   \<and> (phaseL mL = LOADING \<longrightarrow> String k = ''enter'' \<longrightarrow> UpdateL T mL (KeyMsg k) = (mL, CmdNil))
   \<and> (run Update (NewProgram (initialModel src)) evs = Some p \<longrightarrow> length (pending p) \<le> 1)
   \<and> (run (UpdateL T) (NewProgram (initialModelL T src)) evsL = Some pL \<longrightarrow>
        length (pending pL) \<le> 1)"
proof -
  have "phase m = LOADING \<longrightarrow> String k = ''enter'' \<longrightarrow> Update m (KeyMsg k) = (m, CmdNil)"
    by (simp add: phase_def)
  moreover have "phaseL mL = LOADING \<longrightarrow> String k = ''enter'' \<longrightarrow>
      UpdateL T mL (KeyMsg k) = (mL, CmdNil)"
    by (simp add: phaseL_def UpdateL_def split: if_splits)
  ultimately show ?thesis
    using run_Update_one_fetch run_UpdateL_one_fetch by blast
qed

theorem no_second_fetch_witness:
  "Update ((initialModel ''qr'')\<lparr>loading := True\<rparr>) keyEnter
     = ((initialModel ''qr'')\<lparr>loading := True\<rparr>, CmdNil)
   \<and> UpdateL plainInput ((initialModelL plainInput ''qr'')\<lparr>loading := True\<rparr>) keyEnter
     = ((initialModelL plainInput ''qr'')\<lparr>loading := True\<rparr>, CmdNil)
   \<and> run Update (NewProgram (initialModel ''qr'')) [Input keyEnter, Input keyEnter]
     = Some \<lparr>current = (initialModel ''qr'')\<lparr>loading := True\<rparr>, pending = [''qr''],
             finished = False\<rparr>
   \<and> run (UpdateL plainInput) (NewProgram (initialModelL plainInput ''qr''))
         [Input keyEnter, Input keyEnter]
     = Some \<lparr>current = (initialModelL plainInput ''qr'')\<lparr>loading := True\<rparr>,
             pending = [''qr''], finished = False\<rparr>
   \<and> length [''qr''] \<le> (1 :: nat)"
proof -
  let ?k = "\<lparr>Type = KeyEnter, String = ''enter''\<rparr>"
  let ?m = "(initialModel ''qr'')\<lparr>loading := True\<rparr>"
  let ?mL = "(initialModelL plainInput ''qr'')\<lparr>loading := True\<rparr>"
  let ?p = "\<lparr>current = ?m, pending = [''qr''], finished = False\<rparr>"
  let ?pL = "\<lparr>current = ?mL, pending = [''qr''], finished = False\<rparr>"
  have r: "run Update (NewProgram (initialModel ''qr'')) [Input keyEnter, Input keyEnter] = Some ?p"
    by (simp add: eval_run)
  have rL: "run (UpdateL plainInput) (NewProgram (initialModelL plainInput ''qr''))
         [Input keyEnter, Input keyEnter] = Some ?pL"
    by (simp add: eval_run UpdateL_def)
  have ph: "phase ?m = LOADING" "phaseL ?mL = LOADING"
    by (simp_all add: phase_def phaseL_def initialModelL_def)
  from no_second_fetch [of ?m ?k ?mL plainInput "''qr''" "[Input keyEnter, Input keyEnter]" ?p
      "[Input keyEnter, Input keyEnter]" ?pL] r rL ph
  show ?thesis
    by (simp add: keyEnter_def)
qed

section \<open>What enters the history\<close>

lemma flip_counts_fetched_block:
  assumes "fetchAndFlipCmd src Get = flipMsg res None"
  shows "\<exists>bytes. fetchRandomBytes src Get = Inr bytes
          \<and> ones res + zeros res = 8 * int (length bytes)"
proof (cases "fetchRandomBytes src Get")
  case (Inl e)
  with assms show ?thesis by (simp add: fetchAndFlipCmd_def)
next
  case (Inr bytes)
  obtain n1 n0 where c: "countBits bytes = (n1, n0)"
    by (cases "countBits bytes")
  with countBits_total [of bytes] have "n1 + n0 = 8 * int (length bytes)" by simp
  with assms Inr c show ?thesis
    by (auto simp: fetchAndFlipCmd_def Let_def split: if_splits)
qed

lemma fetch_anu_length:
  "fetchRandomBytes ''anu'' Get = Inr bytes \<Longrightarrow> length bytes = 1024"
  by (auto simp: fetchRandomBytes_def fetchAnuQrngBytes_def bytesToFetch_def
           split: sum.splits if_splits)

lemma anu_flip_8192:
  assumes "fetchAndFlipCmd ''anu'' Get = flipMsg res None"
  shows "ones res + zeros res = 8192"
  using flip_counts_fetched_block [OF assms] fetch_anu_length by fastforce

text \<open>
  Claim C3 asks for 8192 counted bits in every recorded result. The qrandom.io
  fetcher returns the second body at whatever length it has, so a body of one byte
  is counted and recorded: the session below ends with a result of 8 bits.
\<close>

theorem qr_short_block_recorded:
  "run Update (NewProgram (initialModel ''qr''))
     [Input keyEnter, Completion 0 (netQRandom 200 200 [255])]
   = Some \<lparr>current =
             \<lparr>source = ''qr'', results = [\<lparr>ones = 8, zeros = 0, winner = resOnes\<rparr>],
              loading = False, err = None, width = 0, height = 0\<rparr>,
           pending = [], finished = False\<rparr>"
  by (simp add: eval_run fetchAndFlipCmd_def fetch_sample_qr countBits_255)

section \<open>A failed flip\<close>

lemma Update_flip_failed:
  "Update m (flipMsg res (Some e)) = (m\<lparr>loading := False, err := Some e\<rparr>, CmdNil)"
  by simp

lemma UpdateL_flip_failed:
  "\<not> inputMode m \<Longrightarrow>
   UpdateL T m (flipMsg res (Some e)) = (m\<lparr>loading := False, err := Some e\<rparr>, CmdNil)"
  by (simp add: UpdateL_def)

text \<open>
  One flip, outside the editor: either the fetch failed and only \<^verbatim>\<open>loading\<close> and
  \<^verbatim>\<open>err\<close> change, or the fetched block was counted and exactly that result is
  appended.
\<close>

lemma Update_flip_all_or_nothing:
  "Update m (fetchAndFlipCmd src Get) =
     (case fetchRandomBytes src Get of
        Inl e \<Rightarrow> (m\<lparr>loading := False, err := Some e\<rparr>, CmdNil)
      | Inr bytes \<Rightarrow>
          (m\<lparr>loading := False,
             results := results m @
               [\<lparr>ones = fst (countBits bytes), zeros = snd (countBits bytes),
                 winner = (if snd (countBits bytes) < fst (countBits bytes) then resOnes
                           else if fst (countBits bytes) < snd (countBits bytes) then resZeros
                           else resTie)\<rparr>]\<rparr>, CmdNil))"
  by (auto simp: fetchAndFlipCmd_def Let_def split: sum.splits prod.splits)

lemma UpdateL_flip_all_or_nothing:
  "\<not> inputMode m \<Longrightarrow>
   UpdateL T m (fetchAndFlipCmd src Get) =
     (case fetchRandomBytes src Get of
        Inl e \<Rightarrow> (m\<lparr>loading := False, err := Some e\<rparr>, CmdNil)
      | Inr bytes \<Rightarrow>
          (m\<lparr>loading := False,
             results := results m @
               [\<lparr>ones = fst (countBits bytes), zeros = snd (countBits bytes),
                 winner = (if snd (countBits bytes) < fst (countBits bytes) then resOnes
                           else if fst (countBits bytes) < snd (countBits bytes) then resZeros
                           else resTie)\<rparr>]\<rparr>, CmdNil))"
  by (auto simp: UpdateL_def fetchAndFlipCmd_def Let_def split: sum.splits prod.splits)

text \<open>
  In the editor the message of a finished flip goes to the focused text input, with
  every other message that is not a key: the model keeps \<^verbatim>\<open>loading\<close>,
  \<^verbatim>\<open>err\<close> and \<^verbatim>\<open>results\<close> as they were, whatever the text input does.
\<close>

lemma UpdateL_flip_in_editor:
  assumes "inputMode m"
  shows "UpdateL T m (flipMsg res e) = updateFocused T m (flipMsg res e)"
    and "loading (fst (UpdateL T m (flipMsg res e))) = loading m"
    and "err (fst (UpdateL T m (flipMsg res e))) = err m"
    and "results (fst (UpdateL T m (flipMsg res e))) = results m"
    and "inputMode (fst (UpdateL T m (flipMsg res e)))"
  using assms by (simp_all add: UpdateL_def updateFocused_def)

text \<open>
  Claim C8 asks that a failed flip records its error and returns the session to IDLE.
  In the revision with label editing, a flip is requested, the editor is opened while
  the fetch runs, the fetch times out, the editor is left with Esc and a new flip is
  requested: the error was never recorded, \<^verbatim>\<open>loading\<close> is still set with no
  fetch in flight, and the last request was ignored.
\<close>

theorem failure_lost_in_editor:
  "run (UpdateL plainInput) (NewProgram (initialModelL plainInput ''qr''))
     [Input keyEnter, Input (keyRune CHR ''i''), Completion 0 netDown, Input keyEsc,
      Input keyEnter]
   = Some \<lparr>current =
             \<lparr>source = ''qr'', results = [], loading = True, err = None,
              width = 0, height = 0, onesMsg = ''ONES'', zerosMsg = ''ZEROS'',
              inputMode = False, onesInput = (''ONES'', False),
              zerosInput = (''ZEROS'', False), focusedInput = 0\<rparr>,
           pending = [], finished = False\<rparr>"
  by (simp add: eval_run UpdateL_def updateFocused_def plainInput_def fetchAndFlipCmd_def
      fetchRandomBytes_def fetchQRandomBytes_def netDown_def)

section \<open>Keys outside the idle phase\<close>

text \<open>
  Claim C4 says that reset, source toggle and label edit are ignored in every phase
  but IDLE. While loading, the key \<^verbatim>\<open>r\<close> empties the history, the key \<^verbatim>\<open>c\<close>
  changes the source and the key \<^verbatim>\<open>i\<close> opens the editor; in the editor the
  key \<^verbatim>\<open>r\<close> is typed into the focused input, so the state changes there too.
\<close>

theorem keys_while_loading_counterexample:
  "phase \<lparr>source = ''qr'', results = [\<lparr>ones = 8, zeros = 0, winner = resOnes\<rparr>],
          loading = True, err = None, width = 80, height = 24\<rparr> = LOADING
   \<and> Update \<lparr>source = ''qr'', results = [\<lparr>ones = 8, zeros = 0, winner = resOnes\<rparr>],
          loading = True, err = None, width = 80, height = 24\<rparr> (keyRune CHR ''r'')
     = (\<lparr>source = ''qr'', results = [], loading = True, err = None, width = 80,
         height = 24\<rparr>, CmdNil)
   \<and> Update \<lparr>source = ''qr'', results = [\<lparr>ones = 8, zeros = 0, winner = resOnes\<rparr>],
          loading = True, err = None, width = 80, height = 24\<rparr> (keyRune CHR ''c'')
     = (\<lparr>source = ''anu'', results = [\<lparr>ones = 8, zeros = 0, winner = resOnes\<rparr>],
         loading = True, err = None, width = 80, height = 24\<rparr>, CmdNil)
   \<and> phaseL ((initialModelL plainInput ''qr'')\<lparr>loading := True\<rparr>) = LOADING
   \<and> phaseL (fst (UpdateL plainInput ((initialModelL plainInput ''qr'')\<lparr>loading := True\<rparr>)
                 (keyRune CHR ''i''))) = LABEL_EDITING
   \<and> phaseL ((initialModelL plainInput ''qr'')
               \<lparr>inputMode := True, onesInput := (''ONES'', True)\<rparr>) = LABEL_EDITING
   \<and> onesInput (fst (UpdateL plainInput
                 ((initialModelL plainInput ''qr'')
                    \<lparr>inputMode := True, onesInput := (''ONES'', True)\<rparr>)
                 (keyRune CHR ''r''))) = (''ONESr'', True)"
  by (simp add: phase_def phaseL_def keyRune_def initialModelL_def UpdateL_def
      updateFocused_def plainInput_def)

lemma Update_reset_toggle:
  "String k = ''r'' \<Longrightarrow> Update m (KeyMsg k) = (m\<lparr>results := []\<rparr>, CmdNil)"
  "String k = ''c'' \<Longrightarrow>
     Update m (KeyMsg k) = (m\<lparr>source := (if source m = ''qr'' then ''anu'' else ''qr'')\<rparr>, CmdNil)"
  by simp_all

lemma UpdateL_reset_toggle:
  "\<not> inputMode m \<Longrightarrow> String k = ''r'' \<Longrightarrow>
     UpdateL T m (KeyMsg k) = (m\<lparr>results := []\<rparr>, CmdNil)"
  "\<not> inputMode m \<Longrightarrow> String k = ''c'' \<Longrightarrow>
     UpdateL T m (KeyMsg k) =
       (m\<lparr>source := (if source m = ''qr'' then ''anu'' else ''qr'')\<rparr>, CmdNil)"
  by (simp_all add: UpdateL_def)

lemma UpdateL_rune_in_editor:
  "inputMode m \<Longrightarrow> Type k = KeyRunes \<Longrightarrow>
     UpdateL T m (KeyMsg k) = updateFocused T m (KeyMsg k)"
  by (simp add: UpdateL_def)

text \<open>
  Claim C4, as amended. In LABEL_EDITING a rune key, \<^verbatim>\<open>r\<close>, \<^verbatim>\<open>c\<close> and
  \<^verbatim>\<open>i\<close> among them, changes the focused edit buffer and nothing else of the
  model. In LOADING, reset empties the history and source toggle changes the source
  as they do in IDLE; neither changes \<^verbatim>\<open>loading\<close> or returns a command.
\<close>

theorem keys_outside_idle:
  "(phaseL mL = LABEL_EDITING \<longrightarrow> Type k = KeyRunes \<longrightarrow>
      UpdateL T mL (KeyMsg k) =
        (if focusedInput mL = 0
         then (mL\<lparr>onesInput := ti_Update T (onesInput mL) (KeyMsg k)\<rparr>, TextinputCmd)
         else (mL\<lparr>zerosInput := ti_Update T (zerosInput mL) (KeyMsg k)\<rparr>, TextinputCmd)))
   \<and> (phase m = LOADING \<longrightarrow> String k = ''r'' \<longrightarrow>
        Update m (KeyMsg k) = (m\<lparr>results := []\<rparr>, CmdNil))
   \<and> (phase m = LOADING \<longrightarrow> String k = ''c'' \<longrightarrow>
        Update m (KeyMsg k) =
          (m\<lparr>source := (if source m = ''qr'' then ''anu'' else ''qr'')\<rparr>, CmdNil))
   \<and> (phaseL mL = LOADING \<longrightarrow> String k = ''r'' \<longrightarrow>
        UpdateL T mL (KeyMsg k) = (mL\<lparr>results := []\<rparr>, CmdNil))
   \<and> (phaseL mL = LOADING \<longrightarrow> String k = ''c'' \<longrightarrow>
        UpdateL T mL (KeyMsg k) =
          (mL\<lparr>source := (if source mL = ''qr'' then ''anu'' else ''qr'')\<rparr>, CmdNil))"
proof -
  have ed: "phaseL mL = LABEL_EDITING \<Longrightarrow> inputMode mL"
    and ld: "phaseL mL = LOADING \<Longrightarrow> \<not> inputMode mL"
    by (simp_all add: phaseL_def split: if_splits)
  show ?thesis
    using ed ld UpdateL_rune_in_editor [of mL k T] UpdateL_reset_toggle [of mL k T]
      Update_reset_toggle [of k m]
    by (simp add: updateFocused_def)
qed

theorem keys_outside_idle_witness:
  "UpdateL plainInput
     ((initialModelL plainInput ''qr'')\<lparr>inputMode := True, onesInput := (''ONES'', True)\<rparr>)
     (keyRune CHR ''c'')
     = ((initialModelL plainInput ''qr'')\<lparr>inputMode := True, onesInput := (''ONESc'', True)\<rparr>,
        TextinputCmd)
   \<and> Update ((initialModel ''qr'')\<lparr>loading := True, results := [\<lparr>ones = 8, zeros = 0, winner = resOnes\<rparr>]\<rparr>)
        (keyRune CHR ''r'')
     = ((initialModel ''qr'')\<lparr>loading := True\<rparr>, CmdNil)
   \<and> Update ((initialModel ''qr'')\<lparr>loading := True\<rparr>) (keyRune CHR ''c'')
     = ((initialModel ''anu'')\<lparr>loading := True\<rparr>, CmdNil)
   \<and> UpdateL plainInput ((initialModelL plainInput ''qr'')\<lparr>loading := True,
          results := [\<lparr>ones = 8, zeros = 0, winner = resOnes\<rparr>]\<rparr>) (keyRune CHR ''r'')
     = ((initialModelL plainInput ''qr'')\<lparr>loading := True\<rparr>, CmdNil)
   \<and> UpdateL plainInput ((initialModelL plainInput ''qr'')\<lparr>loading := True\<rparr>) (keyRune CHR ''c'')
     = ((initialModelL plainInput ''anu'')\<lparr>loading := True\<rparr>, CmdNil)"
proof -
  let ?r = "\<lparr>Type = KeyRunes, String = ''r''\<rparr>"
  let ?c = "\<lparr>Type = KeyRunes, String = ''c''\<rparr>"
  let ?one = "[\<lparr>ones = 8, zeros = 0, winner = resOnes\<rparr>]"
  have 1: "UpdateL plainInput
     ((initialModelL plainInput ''qr'')\<lparr>inputMode := True, onesInput := (''ONES'', True)\<rparr>)
     (keyRune CHR ''c'')
     = ((initialModelL plainInput ''qr'')\<lparr>inputMode := True, onesInput := (''ONESc'', True)\<rparr>,
        TextinputCmd)"
    using keys_outside_idle [of "(initialModelL plainInput ''qr'')\<lparr>inputMode := True, onesInput := (''ONES'', True)\<rparr>"
        ?c plainInput]
    by (simp add: phaseL_def initialModelL_def keyRune_def plainInput_def)
  have 2: "Update ((initialModel ''qr'')\<lparr>loading := True, results := ?one\<rparr>) (keyRune CHR ''r'')
     = ((initialModel ''qr'')\<lparr>loading := True\<rparr>, CmdNil)"
    using keys_outside_idle [of _ ?r _ "(initialModel ''qr'')\<lparr>loading := True, results := ?one\<rparr>"]
    by (simp add: phase_def initialModel_def keyRune_def)
  have 3: "Update ((initialModel ''qr'')\<lparr>loading := True\<rparr>) (keyRune CHR ''c'')
     = ((initialModel ''anu'')\<lparr>loading := True\<rparr>, CmdNil)"
    using keys_outside_idle [of _ ?c _ "(initialModel ''qr'')\<lparr>loading := True\<rparr>"]
    by (simp add: phase_def initialModel_def keyRune_def)
  have 4: "UpdateL plainInput ((initialModelL plainInput ''qr'')\<lparr>loading := True,
          results := ?one\<rparr>) (keyRune CHR ''r'')
     = ((initialModelL plainInput ''qr'')\<lparr>loading := True\<rparr>, CmdNil)"
    using keys_outside_idle [of "(initialModelL plainInput ''qr'')\<lparr>loading := True, results := ?one\<rparr>"
        ?r plainInput]
    by (simp add: phaseL_def initialModelL_def keyRune_def)
  have 5: "UpdateL plainInput ((initialModelL plainInput ''qr'')\<lparr>loading := True\<rparr>) (keyRune CHR ''c'')
     = ((initialModelL plainInput ''anu'')\<lparr>loading := True\<rparr>, CmdNil)"
    using keys_outside_idle [of "(initialModelL plainInput ''qr'')\<lparr>loading := True\<rparr>"
        ?c plainInput]
    by (simp add: phaseL_def initialModelL_def keyRune_def)
  from 1 2 3 4 5 show ?thesis by (intro conjI)
qed

section \<open>Cancelling a label edit\<close>

lemma feed_append:
  "feed upd m (xs @ ys) = feed upd (feed upd m xs) ys"
  by (induction xs arbitrary: m) simp_all

text \<open>
  In the editor, a message that is neither the key Enter nor the key Esc leaves the
  editor open and the labels, the history, the source and \<^verbatim>\<open>loading\<close>
  untouched.
\<close>

lemma UpdateL_edit_frame:
  assumes "inputMode m" and "\<forall>k. msg = KeyMsg k \<longrightarrow> Type k \<noteq> KeyEnter \<and> Type k \<noteq> KeyEsc"
  shows "inputMode (fst (UpdateL T m msg))
       \<and> onesMsg (fst (UpdateL T m msg)) = onesMsg m
       \<and> zerosMsg (fst (UpdateL T m msg)) = zerosMsg m
       \<and> results (fst (UpdateL T m msg)) = results m
       \<and> source (fst (UpdateL T m msg)) = source m
       \<and> loading (fst (UpdateL T m msg)) = loading m"
proof (cases msg)
  case (KeyMsg k)
  with assms show ?thesis
    by (cases "Type k") (simp_all add: UpdateL_def switchFocus_def updateFocused_def)
qed (use assms in \<open>simp_all add: UpdateL_def updateFocused_def\<close>)

lemma feed_edit_frame:
  assumes "inputMode m"
    and "\<forall>msg \<in> set edits. \<forall>k. msg = KeyMsg k \<longrightarrow> Type k \<noteq> KeyEnter \<and> Type k \<noteq> KeyEsc"
  shows "inputMode (feed (UpdateL T) m edits)
       \<and> onesMsg (feed (UpdateL T) m edits) = onesMsg m
       \<and> zerosMsg (feed (UpdateL T) m edits) = zerosMsg m
       \<and> results (feed (UpdateL T) m edits) = results m
       \<and> source (feed (UpdateL T) m edits) = source m
       \<and> loading (feed (UpdateL T) m edits) = loading m"
  using assms
proof (induction edits arbitrary: m)
  case Nil
  then show ?case by simp
next
  case (Cons msg edits)
  from Cons.prems have f: "inputMode (fst (UpdateL T m msg))
       \<and> onesMsg (fst (UpdateL T m msg)) = onesMsg m
       \<and> zerosMsg (fst (UpdateL T m msg)) = zerosMsg m
       \<and> results (fst (UpdateL T m msg)) = results m
       \<and> source (fst (UpdateL T m msg)) = source m
       \<and> loading (fst (UpdateL T m msg)) = loading m"
    by (intro UpdateL_edit_frame) simp_all
  with Cons.IH [of "fst (UpdateL T m msg)"] Cons.prems(2) show ?case
    by simp
qed

lemma UpdateL_open_editor:
  assumes "\<not> inputMode m" and "String ki = ''i''"
  shows "inputMode (fst (UpdateL T m (KeyMsg ki)))
       \<and> onesMsg (fst (UpdateL T m (KeyMsg ki))) = onesMsg m
       \<and> zerosMsg (fst (UpdateL T m (KeyMsg ki))) = zerosMsg m
       \<and> results (fst (UpdateL T m (KeyMsg ki))) = results m
       \<and> source (fst (UpdateL T m (KeyMsg ki))) = source m
       \<and> loading (fst (UpdateL T m (KeyMsg ki))) = loading m"
  using assms by (simp add: UpdateL_def)

lemma UpdateL_cancel:
  assumes "inputMode m" and "Type ke = KeyEsc"
  shows "UpdateL T m (KeyMsg ke) =
     (m\<lparr>inputMode := False, onesInput := ti_Blur T (onesInput m),
        zerosInput := ti_Blur T (zerosInput m)\<rparr>, CmdNil)"
  using assms by (simp add: UpdateL_def)

text \<open>
  From a model outside the editor, after the key \<^verbatim>\<open>i\<close>, any messages in the
  editor other than the keys Enter and Esc (typing, focus switches, library messages),
  and the key Esc, the two labels are what they were before the key \<^verbatim>\<open>i\<close>, the
  history and the source are unchanged, and the phase is the one the session had
  before: Esc clears \<^verbatim>\<open>inputMode\<close> and leaves \<^verbatim>\<open>loading\<close> as it is.
\<close>

lemma cancel_keeps_labels:
  assumes "phaseL m \<noteq> LABEL_EDITING" and "String ki = ''i''"
    and "\<forall>msg \<in> set edits. \<forall>k. msg = KeyMsg k \<longrightarrow> Type k \<noteq> KeyEnter \<and> Type k \<noteq> KeyEsc"
    and "Type ke = KeyEsc"
  shows "onesMsg (feed (UpdateL T) m (KeyMsg ki # edits @ [KeyMsg ke])) = onesMsg m
       \<and> zerosMsg (feed (UpdateL T) m (KeyMsg ki # edits @ [KeyMsg ke])) = zerosMsg m
       \<and> results (feed (UpdateL T) m (KeyMsg ki # edits @ [KeyMsg ke])) = results m
       \<and> source (feed (UpdateL T) m (KeyMsg ki # edits @ [KeyMsg ke])) = source m
       \<and> phaseL (feed (UpdateL T) m (KeyMsg ki # edits @ [KeyMsg ke])) = phaseL m
       \<and> phaseL (feed (UpdateL T) m (KeyMsg ki # edits)) = LABEL_EDITING"
proof -
  let ?m1 = "fst (UpdateL T m (KeyMsg ki))"
  let ?m2 = "feed (UpdateL T) ?m1 edits"
  from assms(1) have out: "\<not> inputMode m"
    by (simp add: phaseL_def split: if_splits)
  note 1 = UpdateL_open_editor [OF out assms(2), of T]
  then have "inputMode ?m1" by simp
  note 2 = feed_edit_frame [OF this assms(3), of T]
  then have "inputMode ?m2" by simp
  note 3 = UpdateL_cancel [OF this assms(4), of T]
  have "feed (UpdateL T) m (KeyMsg ki # edits @ [KeyMsg ke]) = fst (UpdateL T ?m2 (KeyMsg ke))"
    by (simp add: feed_append)
  with 1 2 3 out show ?thesis
    by (simp add: phaseL_def)
qed

text \<open>Opened from IDLE, the editor is left for IDLE.\<close>

lemma cancel_from_idle:
  "feed (UpdateL plainInput) (initialModelL plainInput ''qr'')
     [keyRune CHR ''i'', keyRune CHR ''x'', keyTab, keyRune CHR ''y'']
     = (initialModelL plainInput ''qr'')
         \<lparr>inputMode := True, focusedInput := 1, onesInput := (''ONESx'', False),
          zerosInput := (''ZEROSy'', True)\<rparr>
   \<and> onesMsg (feed (UpdateL plainInput) (initialModelL plainInput ''qr'')
        [keyRune CHR ''i'', keyRune CHR ''x'', keyTab, keyRune CHR ''y'', keyEsc]) = ''ONES''
   \<and> zerosMsg (feed (UpdateL plainInput) (initialModelL plainInput ''qr'')
        [keyRune CHR ''i'', keyRune CHR ''x'', keyTab, keyRune CHR ''y'', keyEsc]) = ''ZEROS''
   \<and> results (feed (UpdateL plainInput) (initialModelL plainInput ''qr'')
        [keyRune CHR ''i'', keyRune CHR ''x'', keyTab, keyRune CHR ''y'', keyEsc]) = []
   \<and> source (feed (UpdateL plainInput) (initialModelL plainInput ''qr'')
        [keyRune CHR ''i'', keyRune CHR ''x'', keyTab, keyRune CHR ''y'', keyEsc]) = ''qr''
   \<and> phaseL (feed (UpdateL plainInput) (initialModelL plainInput ''qr'')
        [keyRune CHR ''i'', keyRune CHR ''x'', keyTab, keyRune CHR ''y'', keyEsc]) = IDLE"
proof -
  let ?edits = "[keyRune CHR ''x'', keyTab, keyRune CHR ''y'']"
  have a: "phaseL (initialModelL plainInput ''qr'') \<noteq> LABEL_EDITING"
    by (simp add: phaseL_def initialModelL_def)
  have b: "\<forall>msg \<in> set ?edits. \<forall>k. msg = KeyMsg k \<longrightarrow> Type k \<noteq> KeyEnter \<and> Type k \<noteq> KeyEsc"
    by (simp add: keyRune_def keyTab_def)
  have c: "feed (UpdateL plainInput) (initialModelL plainInput ''qr'') (keyRune CHR ''i'' # ?edits)
     = (initialModelL plainInput ''qr'')
         \<lparr>inputMode := True, focusedInput := 1, onesInput := (''ONESx'', False),
          zerosInput := (''ZEROSy'', True)\<rparr>"
    by (simp add: keyRune_def keyTab_def initialModelL_def UpdateL_def updateFocused_def
        switchFocus_def plainInput_def)
  from cancel_keeps_labels [of "initialModelL plainInput ''qr''" "\<lparr>Type = KeyRunes, String = ''i''\<rparr>"
      ?edits "\<lparr>Type = KeyEsc, String = ''esc''\<rparr>" plainInput, OF a _ b]
  have "onesMsg (feed (UpdateL plainInput) (initialModelL plainInput ''qr'')
        (keyRune CHR ''i'' # ?edits @ [keyEsc])) = onesMsg (initialModelL plainInput ''qr'')
       \<and> zerosMsg (feed (UpdateL plainInput) (initialModelL plainInput ''qr'')
        (keyRune CHR ''i'' # ?edits @ [keyEsc])) = zerosMsg (initialModelL plainInput ''qr'')
       \<and> results (feed (UpdateL plainInput) (initialModelL plainInput ''qr'')
        (keyRune CHR ''i'' # ?edits @ [keyEsc])) = results (initialModelL plainInput ''qr'')
       \<and> source (feed (UpdateL plainInput) (initialModelL plainInput ''qr'')
        (keyRune CHR ''i'' # ?edits @ [keyEsc])) = source (initialModelL plainInput ''qr'')
       \<and> phaseL (feed (UpdateL plainInput) (initialModelL plainInput ''qr'')
        (keyRune CHR ''i'' # ?edits @ [keyEsc])) = phaseL (initialModelL plainInput ''qr'')"
    by (simp add: keyRune_def keyEsc_def)
  moreover have "onesMsg (initialModelL plainInput ''qr'') = ''ONES''"
    "zerosMsg (initialModelL plainInput ''qr'') = ''ZEROS''"
    "results (initialModelL plainInput ''qr'') = []"
    "source (initialModelL plainInput ''qr'') = ''qr''"
    "phaseL (initialModelL plainInput ''qr'') = IDLE"
    by (simp_all add: initialModelL_def phaseL_def)
  ultimately show ?thesis
    using c by simp
qed


section \<open>The source selector\<close>

lemma fetch_unknown_source:
  "s \<noteq> ''qr'' \<Longrightarrow> s \<noteq> ''anu'' \<Longrightarrow>
   fetchRandomBytes s Get = Inl (''unknown source: '' @ s @ '' (use 'qr' or 'anu')'')"
  by (simp add: fetchRandomBytes_def)

lemma Update_source_valid:
  "source m \<in> {''qr'', ''anu''} \<Longrightarrow> source (fst (Update m msg)) \<in> {''qr'', ''anu''}"
  by (cases msg) (auto split: option.splits)

lemma feed_Update_source_valid:
  "source m \<in> {''qr'', ''anu''} \<Longrightarrow> source (feed Update m msgs) \<in> {''qr'', ''anu''}"
proof (induction msgs arbitrary: m)
  case Nil
  then show ?case by simp
next
  case (Cons msg msgs)
  from Cons.IH [OF Update_source_valid [OF Cons.prems]] show ?case by simp
qed

lemma UpdateL_source_valid:
  "source m \<in> {''qr'', ''anu''} \<Longrightarrow> source (fst (UpdateL T m msg)) \<in> {''qr'', ''anu''}"
  by (cases msg)
     (auto simp: UpdateL_def switchFocus_def updateFocused_def
           split: option.splits KeyType.splits)

lemma feed_UpdateL_source_valid:
  "source m \<in> {''qr'', ''anu''} \<Longrightarrow> source (feed (UpdateL T) m msgs) \<in> {''qr'', ''anu''}"
proof (induction msgs arbitrary: m)
  case Nil
  then show ?case by simp
next
  case (Cons msg msgs)
  from Cons.IH [OF UpdateL_source_valid [OF Cons.prems]] show ?case by simp
qed

text \<open>
  Claim C10. \<^verbatim>\<open>main\<close> hands the value of \<^verbatim>\<open>-s\<close> to the session as it is. When
  it is neither \<^verbatim>\<open>qr\<close> nor \<^verbatim>\<open>anu\<close>, a flip in that state ends with the
  unknown-source error recorded and nothing appended to the history (and the
  command-line mode exits with that error). The source toggle turns \<^verbatim>\<open>qr\<close> into
  \<^verbatim>\<open>anu\<close> and every other string into \<^verbatim>\<open>qr\<close>, so after a toggle, and whatever
  messages follow, the source is one of the two.
\<close>

theorem source_never_validated:
  "main s True Get = Inl (NewProgram (initialModel s))
   \<and> source (initialModel s) = s
   \<and> mainL T s True Get = Inl (NewProgram (initialModelL T s))
   \<and> source (initialModelL T s) = s
   \<and> (s \<noteq> ''qr'' \<longrightarrow> s \<noteq> ''anu'' \<longrightarrow>
        run Update (NewProgram (initialModel s)) [Input keyEnter, Completion 0 Get]
          = Some (NewProgram
              ((initialModel s)\<lparr>err := Some (''unknown source: '' @ s @ '' (use 'qr' or 'anu')'')\<rparr>))
      \<and> run (UpdateL T) (NewProgram (initialModelL T s)) [Input keyEnter, Completion 0 Get]
          = Some (NewProgram
              ((initialModelL T s)\<lparr>err := Some (''unknown source: '' @ s @ '' (use 'qr' or 'anu')'')\<rparr>))
      \<and> main s False Get
          = Inr \<lparr>stdout = [],
                 stderr = [''Error: unknown source: '' @ s @ '' (use 'qr' or 'anu')''],
                 exit_code = 1\<rparr>)
   \<and> (String k = ''c'' \<longrightarrow>
        source (fst (Update m (KeyMsg k))) = (if source m = ''qr'' then ''anu'' else ''qr'')
      \<and> source (feed Update (fst (Update m (KeyMsg k))) msgs) \<in> {''qr'', ''anu''})
   \<and> (String k = ''c'' \<longrightarrow> \<not> inputMode mL \<longrightarrow>
        source (fst (UpdateL T mL (KeyMsg k))) = (if source mL = ''qr'' then ''anu'' else ''qr'')
      \<and> source (feed (UpdateL T) (fst (UpdateL T mL (KeyMsg k))) msgs) \<in> {''qr'', ''anu''})"
proof -
  have start: "main s True Get = Inl (NewProgram (initialModel s))"
    "source (initialModel s) = s"
    "mainL T s True Get = Inl (NewProgram (initialModelL T s))"
    "source (initialModelL T s) = s"
    by (simp_all add: main_def mainL_def initialModel_def initialModelL_def)
  have unknown: "s \<noteq> ''qr'' \<longrightarrow> s \<noteq> ''anu'' \<longrightarrow>
        run Update (NewProgram (initialModel s)) [Input keyEnter, Completion 0 Get]
          = Some (NewProgram
              ((initialModel s)\<lparr>err := Some (''unknown source: '' @ s @ '' (use 'qr' or 'anu')'')\<rparr>))
      \<and> run (UpdateL T) (NewProgram (initialModelL T s)) [Input keyEnter, Completion 0 Get]
          = Some (NewProgram
              ((initialModelL T s)\<lparr>err := Some (''unknown source: '' @ s @ '' (use 'qr' or 'anu')'')\<rparr>))
      \<and> main s False Get
          = Inr \<lparr>stdout = [],
                 stderr = [''Error: unknown source: '' @ s @ '' (use 'qr' or 'anu')''],
                 exit_code = 1\<rparr>"
    by (simp add: eval_run UpdateL_def fetchAndFlipCmd_def fetch_unknown_source main_def
        runCLI_def)
  have toggle: "String k = ''c'' \<longrightarrow>
        source (fst (Update m (KeyMsg k))) = (if source m = ''qr'' then ''anu'' else ''qr'')"
    by simp
  have toggleL: "String k = ''c'' \<longrightarrow> \<not> inputMode mL \<longrightarrow>
        source (fst (UpdateL T mL (KeyMsg k))) = (if source mL = ''qr'' then ''anu'' else ''qr'')"
    by (simp add: UpdateL_def)
  have after: "String k = ''c'' \<longrightarrow>
      source (feed Update (fst (Update m (KeyMsg k))) msgs) \<in> {''qr'', ''anu''}"
  proof
    assume "String k = ''c''"
    with toggle have "source (fst (Update m (KeyMsg k))) \<in> {''qr'', ''anu''}"
      by (simp del: Update.simps)
    then show "source (feed Update (fst (Update m (KeyMsg k))) msgs) \<in> {''qr'', ''anu''}"
      by (rule feed_Update_source_valid)
  qed
  have afterL: "String k = ''c'' \<longrightarrow> \<not> inputMode mL \<longrightarrow>
      source (feed (UpdateL T) (fst (UpdateL T mL (KeyMsg k))) msgs) \<in> {''qr'', ''anu''}"
  proof (intro impI)
    assume "String k = ''c''" and "\<not> inputMode mL"
    with toggleL have "source (fst (UpdateL T mL (KeyMsg k))) \<in> {''qr'', ''anu''}"
      by simp
    then show "source (feed (UpdateL T) (fst (UpdateL T mL (KeyMsg k))) msgs) \<in> {''qr'', ''anu''}"
      by (rule feed_UpdateL_source_valid)
  qed
  from start unknown toggle toggleL after afterL show ?thesis
    by blast
qed

theorem source_never_validated_witness:
  "main ''dice'' True netDown = Inl (NewProgram (initialModel ''dice''))
   \<and> run Update (NewProgram (initialModel ''dice''))
       [Input keyEnter, Completion 0 (netQRandom 200 200 [255])]
     = Some \<lparr>current =
               \<lparr>source = ''dice'', results = [], loading = False,
                err = Some ''unknown source: dice (use 'qr' or 'anu')'',
                width = 0, height = 0\<rparr>,
             pending = [], finished = False\<rparr>
   \<and> main ''dice'' False (netQRandom 200 200 [255])
     = Inr \<lparr>stdout = [], stderr = [''Error: unknown source: dice (use 'qr' or 'anu')''],
            exit_code = 1\<rparr>
   \<and> source (fst (Update (initialModel ''dice'') (keyRune CHR ''c''))) = ''qr''
   \<and> source (fst (Update (initialModel ''qr'') (keyRune CHR ''c''))) = ''anu''
   \<and> source (feed Update (initialModel ''dice'')
               [keyRune CHR ''c'', keyRune CHR ''c'', keyRune CHR ''r'', keyRune CHR ''c'']) = ''qr''"
proof -
  let ?c = "\<lparr>Type = KeyRunes, String = ''c''\<rparr>"
  have d: "''dice'' \<noteq> ''qr''" "''dice'' \<noteq> ''anu''" by simp_all
  from source_never_validated [of "''dice''" netDown plainInput ?c "initialModel ''dice''" "[]"]
  have 1: "main ''dice'' True netDown = Inl (NewProgram (initialModel ''dice''))"
    and 4: "source (fst (Update (initialModel ''dice'') (keyRune CHR ''c''))) = ''qr''"
    by (simp_all add: keyRune_def initialModel_def)
  from source_never_validated [of "''dice''" "netQRandom 200 200 [255]" plainInput ?c
      "initialModel ''qr''" "[]"] d
  have 2: "run Update (NewProgram (initialModel ''dice''))
       [Input keyEnter, Completion 0 (netQRandom 200 200 [255])]
     = Some \<lparr>current =
               \<lparr>source = ''dice'', results = [], loading = False,
                err = Some ''unknown source: dice (use 'qr' or 'anu')'',
                width = 0, height = 0\<rparr>,
             pending = [], finished = False\<rparr>"
    and 3: "main ''dice'' False (netQRandom 200 200 [255])
     = Inr \<lparr>stdout = [], stderr = [''Error: unknown source: dice (use 'qr' or 'anu')''],
            exit_code = 1\<rparr>"
    and 5: "source (fst (Update (initialModel ''qr'') (keyRune CHR ''c''))) = ''anu''"
    by (simp_all add: keyRune_def initialModel_def NewProgram_def)
  have 6: "source (feed Update (initialModel ''dice'')
               [keyRune CHR ''c'', keyRune CHR ''c'', keyRune CHR ''r'', keyRune CHR ''c'']) = ''qr''"
    by (simp add: keyRune_def initialModel_def)
  from 1 2 3 4 5 6 show ?thesis by (intro conjI)
qed

end
